theory Spec2Isabelle
  imports Complex_Main
begin

section \<open>Common data: exceptions, cells, frames\<close>

text \<open>
  Every Python exception the modelled code can raise is a value. \<open>LibraryError\<close> stands
  for an exception raised inside scikit-learn, pandas, numpy or joblib.
\<close>

datatype error =
    ValueError string
  | FileNotFoundError string
  | KeyError string
  | TypeError
  | IndexError
  | AttributeError
  | LibraryError

text \<open>
  A cell of a pandas frame or numpy array: a number, a string (object dtype) or a missing
  value. Floats are idealised as reals.
\<close>

datatype cell = Num real | Str string | NaN

text \<open>
  A DataFrame, column-major and in column order: each column is its name and its values.
  \<open>pd.DataFrame()\<close> is the empty list.
\<close>

type_synonym frame = "(string \<times> cell list) list"

definition columns :: "frame \<Rightarrow> string list" where
  "columns df = map fst df"

definition nrows :: "frame \<Rightarrow> nat" where
  "nrows df = (case df of [] \<Rightarrow> 0 | (c, vs) # rest \<Rightarrow> length vs)"

text \<open>
  Log records of level warning and above (the informational ones are left out): the
  level and the fixed part of the message.
\<close>

datatype log_level = WARNING | ERROR

type_synonym log = "(log_level \<times> string) list"

section \<open>Hashtag features (\<open>DataProcessor._extract_hashtag_features\<close>)\<close>

text \<open>
  \<open>x.split(',')\<close>: one segment more than there are separators; the empty string splits
  into one empty segment.
\<close>

fun split_on :: "char \<Rightarrow> string \<Rightarrow> string list" where
  "split_on sep [] = [[]]"
| "split_on sep (c # cs) =
     (if c = sep then [] # split_on sep cs
      else (case split_on sep cs of
              [] \<Rightarrow> [[c]]
            | seg # segs \<Rightarrow> (c # seg) # segs))"

text \<open>
  \<open>str.isspace\<close> on the code points below 256 (a \<open>char\<close> is one such code point here):
  tab to carriage return, the four separators 28 to 31, the space, NEL and the
  no-break space.
\<close>

definition isspace :: "char \<Rightarrow> bool" where
  "isspace c = ((of_char c :: nat) \<in> {9, 10, 11, 12, 13, 28, 29, 30, 31, 32, 133, 160})"

definition strip :: "string \<Rightarrow> string" where
  "strip s = rev (dropWhile isspace (rev (dropWhile isspace s)))"

definition mean :: "real list \<Rightarrow> real" where
  "mean xs = sum_list xs / real (length xs)"

text \<open>
  The column value is \<open>Some s\<close> for a string \<open>s\<close> and \<open>None\<close> for anything that is not a
  string (a missing value read from a CSV file is a float NaN). The guard is
  \<open>isinstance(x, str) and x\<close>.
\<close>

definition hashtag_count :: "string option \<Rightarrow> nat" where
  "hashtag_count x =
     (case x of
        None \<Rightarrow> 0
      | Some s \<Rightarrow> if s \<noteq> [] then length (split_on CHR '','' s) else 0)"

definition avg_hashtag_length :: "string option \<Rightarrow> real" where
  "avg_hashtag_length x =
     (case x of
        None \<Rightarrow> 0
      | Some s \<Rightarrow>
          if s \<noteq> [] then mean (map (\<lambda>tag. real (length (strip tag))) (split_on CHR '','' s))
          else 0)"

text \<open>\<open>','.join(segs)\<close>, to say what the segments of a string are.\<close>

fun join_on :: "char \<Rightarrow> string list \<Rightarrow> string" where
  "join_on sep [] = []"
| "join_on sep [seg] = seg"
| "join_on sep (seg # segs) = seg @ sep # join_on sep segs"

section \<open>Engagement level (\<open>EngagementModel.predict\<close>)\<close>

datatype level = Low | Medium | High

text \<open>
  \<open>pd.cut(total_engagement, bins=[0, 50, 200, float('inf')], labels=['low', 'medium',
  'high'])\<close> with the defaults \<open>right=True\<close> and \<open>include_lowest=False\<close>: the bins are
  the half-open intervals (0, 50], (50, 200] and (200, inf]; a value in none of them gets
  the missing value, here \<open>None\<close>.
\<close>

definition engagement_level :: "real \<Rightarrow> level option" where
  "engagement_level t =
     (if 0 < t \<and> t \<le> 50 then Some Low
      else if 50 < t \<and> t \<le> 200 then Some Medium
      else if 200 < t then Some High
      else None)"

text \<open>\<open>predictions_df.sum(axis=1)\<close> for one row of predicted targets.\<close>

definition total_engagement :: "real list \<Rightarrow> real" where
  "total_engagement row = sum_list row"

section \<open>Fitted library objects and persisted artifacts\<close>

text \<open>
  A fitted regressor is known here by what the code asks of it: \<open>predict\<close> on a matrix of
  cells, which returns a list of per-target arrays or one array of rows, or raises; and
  whether it has the parameter \<open>enable_categorical\<close> (\<open>None\<close>: it has no such parameter).
\<close>

datatype predictions = PerTarget "real list list" | Matrix "real list list"

record regressor =
  reg_predict :: "cell list list \<Rightarrow> error + predictions"
  enable_categorical :: "bool option"

text \<open>
  A fitted \<open>ColumnTransformer\<close>: its \<open>transformers_\<close> as triples of name, columns and the
  one-hot categories of each column, and its \<open>transform\<close>, which returns rows or raises.
\<close>

record column_transformer =
  transformers :: "(string \<times> string list \<times> string list list) list"
  ct_transform :: "frame \<Rightarrow> error + cell list list"

record tfidf =
  get_feature_names_out :: "string list"
  tfidf_transform :: "cell list \<Rightarrow> error + cell list list"

record feature_engineering =
  preprocessor :: "column_transformer option"
  tfidf_vectorizer :: "tfidf option"
  numerical_features :: "string list"
  categorical_features :: "string list"
  text_feature :: string

text \<open>
  The dictionary \<open>FeatureEngineering.save\<close> writes, or a part of it: each field is \<open>None\<close>
  when the key is absent.
\<close>

record fe_dict =
  d_preprocessor :: "column_transformer option option"
  d_tfidf_vectorizer :: "tfidf option option"
  d_numerical_features :: "string list option"
  d_categorical_features :: "string list option"
  d_text_feature :: "string option"

type_synonym metrics_t = "(string \<times> (string \<times> (string \<times> real) list) list) list"

record metadata =
  md_model_type :: string
  md_feature_names :: "string list option"
  md_target_names :: "string list"
  md_metrics :: metrics_t
  md_feature_importance :: "(string \<times> real) list"
  md_timestamp :: string

text \<open>
  What a file of the model directory holds, as \<open>joblib.load\<close> returns it. \<open>Corrupt\<close> is a
  file that exists and cannot be read back (\<open>joblib.load\<close> raises); \<open>OOther\<close> is any other
  object, which has none of the attributes or keys the code reads.
\<close>

datatype pyobj =
    ORegressor regressor
  | OMetadata metadata
  | OFEDict fe_dict
  | OFEInstance feature_engineering
  | OOther
  | Corrupt

type_synonym files = "string \<Rightarrow> pyobj option"

text \<open>\<open>os.path.join\<close> of two components (POSIX).\<close>

definition path_join :: "string \<Rightarrow> string \<Rightarrow> string" where
  "path_join a b =
     (if take 1 b = ''/'' then b
      else if a = [] \<or> take 1 (rev a) = ''/'' then a @ b
      else a @ ''/'' @ b)"

definition joblib_load :: "files \<Rightarrow> string \<Rightarrow> error + pyobj" where
  "joblib_load fs path =
     (case fs path of
        None \<Rightarrow> Inl (FileNotFoundError path)
      | Some Corrupt \<Rightarrow> Inl LibraryError
      | Some obj \<Rightarrow> Inr obj)"

section \<open>The engagement model (\<open>EngagementModel\<close>)\<close>

text \<open>
  The object's attributes. \<open>model\<close> holds whatever was assigned to \<open>self.model\<close>;
  \<open>None\<close> is the state of a model that was never trained and never loaded.
  \<open>shap_values\<close> is left out: no modelled method reads it.
\<close>

record engagement_model =
  model_type :: string
  model_dir :: string
  model :: "pyobj option"
  feature_names :: "string list option"
  target_names :: "string list"
  metrics :: metrics_t
  feature_importance :: "(string \<times> real) list"

text \<open>\<open>__init__\<close> (the directory is created on the side).\<close>

definition init :: "string \<Rightarrow> string \<Rightarrow> engagement_model" where
  "init mtype mdir =
     \<lparr> model_type = mtype, model_dir = mdir, model = None, feature_names = None,
       target_names = [''likes'', ''shares'', ''comments''], metrics = [],
       feature_importance = [] \<rparr>"

text \<open>\<open>self.model.predict(X)\<close>: an object that is no regressor has no such method.\<close>

definition model_predict :: "pyobj \<Rightarrow> cell list list \<Rightarrow> error + predictions" where
  "model_predict obj X =
     (case obj of ORegressor r \<Rightarrow> reg_predict r X | _ \<Rightarrow> Inl AttributeError)"

text \<open>\<open>X.values\<close>: the rows of a frame.\<close>

definition frame_values :: "frame \<Rightarrow> cell list list" where
  "frame_values df = map (\<lambda>i. map (\<lambda>(c, vs). vs ! i) df) [0 ..< nrows df]"

text \<open>
  The predictions as rows of target values. A list of per-target arrays is read at the
  indices of \<open>target_names\<close> (an \<open>IndexError\<close> when it is shorter), and the columns must
  be equally long; an array of rows must have one column per target name.
\<close>

definition prediction_rows :: "string list \<Rightarrow> predictions \<Rightarrow> error + real list list" where
  "prediction_rows targets P =
     (case P of
        PerTarget cols \<Rightarrow>
          if length cols < length targets then Inl IndexError
          else (let used = take (length targets) cols in
                if list_all (\<lambda>c. length c = length (hd used)) used
                then Inr (map (\<lambda>i. map (\<lambda>c. c ! i) used) [0 ..< (case used of [] \<Rightarrow> 0 | c # _ \<Rightarrow> length c)])
                else Inl (ValueError ''Length of values does not match length of index''))
      | Matrix rows \<Rightarrow>
          if list_all (\<lambda>r. length r = length targets) rows then Inr rows
          else Inl (ValueError ''Shape of passed values does not match the columns''))"

text \<open>
  \<open>predict\<close>: each returned row is its predicted targets and its engagement level (the
  change of object columns to the category dtype does not change a value).
\<close>

definition predict :: "engagement_model \<Rightarrow> frame \<Rightarrow> error + (real list \<times> level option) list" where
  "predict m X =
     (case model m of
        None \<Rightarrow> Inl (ValueError ''Model not trained. Call train() first.'')
      | Some obj \<Rightarrow>
          (case model_predict obj (frame_values X) of
             Inl e \<Rightarrow> Inl e
           | Inr P \<Rightarrow>
               (case prediction_rows (target_names m) P of
                  Inl e \<Rightarrow> Inl e
                | Inr rows \<Rightarrow> Inr (map (\<lambda>row. (row, engagement_level (total_engagement row))) rows))))"

text \<open>\<open>xs[:n]\<close> for an integer \<open>n\<close>: a negative \<open>n\<close> counts from the end.\<close>

definition py_prefix :: "int \<Rightarrow> 'a list \<Rightarrow> 'a list" where
  "py_prefix n xs = (if 0 \<le> n then take (nat n) xs else take (length xs - nat (- n)) xs)"

text \<open>
  \<open>get_feature_importance\<close>: the stored mapping, as an association list in its order, or
  its first \<open>top_n\<close> items. The body has no \<open>raise\<close> and reads nothing but that mapping.
\<close>

definition get_feature_importance ::
  "engagement_model \<Rightarrow> int option \<Rightarrow> error + (string \<times> real) list" where
  "get_feature_importance m top_n =
     (case top_n of
        Some n \<Rightarrow> Inr (py_prefix n (feature_importance m))
      | None \<Rightarrow> Inr (feature_importance m))"

text \<open>
  \<open>save\<close>: \<open>stamp\<close> is \<open>datetime.now().strftime\<close> and \<open>isotime\<close> is
  \<open>datetime.now().isoformat()\<close>. It returns the files as written and the two paths.
\<close>

definition save ::
  "files \<Rightarrow> engagement_model \<Rightarrow> string option \<Rightarrow> string \<Rightarrow> string \<Rightarrow>
     error + (files \<times> string \<times> string)" where
  "save fs m filename stamp isotime =
     (case model m of
        None \<Rightarrow> Inl (ValueError ''Model not trained. Call train() first.'')
      | Some obj \<Rightarrow>
          (let name = (case filename of None \<Rightarrow> model_type m @ ''_model_'' @ stamp | Some f \<Rightarrow> f);
               model_path = path_join (model_dir m) (name @ ''.joblib'');
               metadata_path = path_join (model_dir m) (name @ ''_metadata.joblib'');
               fs1 = fs(model_path := Some obj);
               md = \<lparr> md_model_type = model_type m, md_feature_names = feature_names m,
                      md_target_names = target_names m, md_metrics = metrics m,
                      md_feature_importance = feature_importance m, md_timestamp = isotime \<rparr>;
               fs2 = fs1(metadata_path := Some (OMetadata md))
           in Inr (fs2, model_path, metadata_path)))"

text \<open>
  \<open>load\<close>. An exception leaves the object as the assignments before it made it, so the
  result is the object after the call and the exception, if one was raised. Both files
  are looked for before anything is assigned. The estimator is stored first, with
  \<open>enable_categorical\<close> switched on when the object's own \<open>model_type\<close> (not yet the
  loaded one) is xgboost and the estimator has the parameter; the five attributes of the
  metadata follow.
\<close>

definition set_categorical :: "string \<Rightarrow> pyobj \<Rightarrow> pyobj" where
  "set_categorical mtype obj =
     (case obj of
        ORegressor r \<Rightarrow>
          if mtype = ''xgboost'' \<and> enable_categorical r \<noteq> None
          then ORegressor (r\<lparr>enable_categorical := Some True\<rparr>)
          else obj
      | _ \<Rightarrow> obj)"

definition load :: "files \<Rightarrow> engagement_model \<Rightarrow> string \<Rightarrow> engagement_model \<times> error option" where
  "load fs m filename =
     (let model_path = path_join (model_dir m) (filename @ ''.joblib'');
          metadata_path = path_join (model_dir m) (filename @ ''_metadata.joblib'')
      in if fs model_path = None then (m, Some (FileNotFoundError model_path))
         else if fs metadata_path = None then (m, Some (FileNotFoundError metadata_path))
         else (case joblib_load fs model_path of
                 Inl e \<Rightarrow> (m, Some e)
               | Inr obj \<Rightarrow>
                   (let m1 = m\<lparr>model := Some (set_categorical (model_type m) obj)\<rparr> in
                    case joblib_load fs metadata_path of
                      Inl e \<Rightarrow> (m1, Some e)
                    | Inr (OMetadata md) \<Rightarrow>
                        (m1\<lparr>model_type := md_model_type md,
                            feature_names := md_feature_names md,
                            target_names := md_target_names md,
                            metrics := md_metrics md,
                            feature_importance := md_feature_importance md\<rparr>, None)
                    | Inr (OFEDict d) \<Rightarrow> (m1, Some (KeyError ''model_type''))
                    | Inr other \<Rightarrow> (m1, Some TypeError))))"

section \<open>The feature transform pipeline (\<open>FeatureEngineering\<close>)\<close>

text \<open>
  \<open>_get_feature_names\<close>: the numeric columns keep their names, a categorical column
  gives one name per category. \<open>ohe.categories_[i]\<close> raises when the encoder has fewer
  category lists than columns.
\<close>

definition transformer_names :: "string \<times> string list \<times> string list list \<Rightarrow> error + string list" where
  "transformer_names t =
     (case t of (name, cols, categories) \<Rightarrow>
        if name = ''num'' then Inr cols
        else if name = ''cat'' then
          (if length categories < length cols then Inl IndexError
           else Inr (concat (map (\<lambda>(col, cats). map (\<lambda>cat. col @ ''_'' @ cat) cats)
                                 (zip cols categories))))
        else Inr [])"

fun collect_names :: "(string \<times> string list \<times> string list list) list \<Rightarrow> error + string list" where
  "collect_names [] = Inr []"
| "collect_names (t # ts) =
     (case transformer_names t of
        Inl e \<Rightarrow> Inl e
      | Inr ns \<Rightarrow> (case collect_names ts of Inl e \<Rightarrow> Inl e | Inr rest \<Rightarrow> Inr (ns @ rest)))"

definition get_feature_names_private :: "feature_engineering \<Rightarrow> error + string list" where
  "get_feature_names_private fe =
     (case preprocessor fe of None \<Rightarrow> Inr [] | Some pp \<Rightarrow> collect_names (transformers pp))"

text \<open>\<open>pd.DataFrame(rows, columns=names)\<close>: every row must have one value per name.\<close>

definition data_frame :: "cell list list \<Rightarrow> string list \<Rightarrow> error + frame" where
  "data_frame rows names =
     (if list_all (\<lambda>r. length r = length names) rows
      then Inr (map (\<lambda>(name, j). (name, map (\<lambda>r. r ! j) rows)) (zip names [0 ..< length names]))
      else Inl (ValueError ''Shape of passed values does not match the columns''))"

text \<open>\<open>df[name].fillna('')\<close> for a column that is present.\<close>

definition text_column :: "frame \<Rightarrow> string \<Rightarrow> cell list" where
  "text_column df name =
     (case map_of df name of
        None \<Rightarrow> []
      | Some vs \<Rightarrow> map (\<lambda>v. if v = NaN then Str [] else v) vs)"

text \<open>
  \<open>transform\<close>. With no fitted preprocessor it logs a warning and returns the empty frame;
  nothing is raised on that branch.
\<close>

definition transform :: "feature_engineering \<Rightarrow> frame \<Rightarrow> log \<times> (error + frame)" where
  "transform fe df =
     (case preprocessor fe of
        None \<Rightarrow> ([(WARNING, ''Preprocessor not fitted. Returning empty feature set.'')], Inr [])
      | Some pp \<Rightarrow>
          ([],
           case ct_transform pp df of
             Inl e \<Rightarrow> Inl e
           | Inr transformed_features \<Rightarrow>
               (case get_feature_names_private fe of
                  Inl e \<Rightarrow> Inl e
                | Inr names \<Rightarrow>
                    (case data_frame transformed_features names of
                       Inl e \<Rightarrow> Inl e
                     | Inr transformed_df \<Rightarrow>
                         (case tfidf_vectorizer fe of
                            None \<Rightarrow> Inr transformed_df
                          | Some v \<Rightarrow>
                              if text_feature fe \<in> set (columns df) then
                                (case tfidf_transform v (text_column df (text_feature fe)) of
                                   Inl e \<Rightarrow> Inl e
                                 | Inr text_features \<Rightarrow>
                                     (case data_frame text_features
                                             (map (\<lambda>f. ''tfidf_'' @ f) (get_feature_names_out v)) of
                                        Inl e \<Rightarrow> Inl e
                                      | Inr text_df \<Rightarrow> Inr (transformed_df @ text_df)))
                              else Inr transformed_df)))))"

text \<open>
  \<open>FeatureEngineering.load\<close>. The body of the \<open>try\<close> assigns the five attributes one
  after the other, from a dictionary or from a saved instance; a missing key or attribute
  raises after the assignments before it. The handler catches every exception and
  returns \<open>False\<close>.
\<close>

definition assign_from_dict :: "feature_engineering \<Rightarrow> fe_dict \<Rightarrow> feature_engineering \<times> error option" where
  "assign_from_dict fe d =
     (case d_preprocessor d of
        None \<Rightarrow> (fe, Some (KeyError ''preprocessor''))
      | Some p \<Rightarrow>
          (let fe1 = fe\<lparr>preprocessor := p\<rparr> in
           case d_tfidf_vectorizer d of
             None \<Rightarrow> (fe1, Some (KeyError ''tfidf_vectorizer''))
           | Some t \<Rightarrow>
               (let fe2 = fe1\<lparr>tfidf_vectorizer := t\<rparr> in
                case d_numerical_features d of
                  None \<Rightarrow> (fe2, Some (KeyError ''numerical_features''))
                | Some n \<Rightarrow>
                    (let fe3 = fe2\<lparr>numerical_features := n\<rparr> in
                     case d_categorical_features d of
                       None \<Rightarrow> (fe3, Some (KeyError ''categorical_features''))
                     | Some c \<Rightarrow>
                         (let fe4 = fe3\<lparr>categorical_features := c\<rparr> in
                          case d_text_feature d of
                            None \<Rightarrow> (fe4, Some (KeyError ''text_feature''))
                          | Some x \<Rightarrow> (fe4\<lparr>text_feature := x\<rparr>, None))))))"

definition load_body :: "files \<Rightarrow> feature_engineering \<Rightarrow> string \<Rightarrow> feature_engineering \<times> error option" where
  "load_body fs fe filepath =
     (case joblib_load fs filepath of
        Inl e \<Rightarrow> (fe, Some e)
      | Inr (OFEDict d) \<Rightarrow> assign_from_dict fe d
      | Inr (OMetadata md) \<Rightarrow> (fe, Some (KeyError ''preprocessor''))
      | Inr (OFEInstance inst) \<Rightarrow>
          (fe\<lparr>preprocessor := preprocessor inst,
              tfidf_vectorizer := tfidf_vectorizer inst,
              numerical_features := numerical_features inst,
              categorical_features := categorical_features inst,
              text_feature := text_feature inst\<rparr>, None)
      | Inr other \<Rightarrow> (fe, Some AttributeError))"

definition FeatureEngineering_load ::
  "files \<Rightarrow> feature_engineering \<Rightarrow> string \<Rightarrow> feature_engineering \<times> log \<times> bool" where
  "FeatureEngineering_load fs fe filepath =
     (case load_body fs fe filepath of
        (fe', None) \<Rightarrow> (fe', [], True)
      | (fe', Some e) \<Rightarrow> (fe', [(ERROR, ''Error loading feature engineering pipeline'')], False))"

text \<open>\<open>FeatureEngineering()\<close>: the constructor's state.\<close>

definition new_feature_engineering :: feature_engineering where
  "new_feature_engineering =
     \<lparr> preprocessor = None, tfidf_vectorizer = None,
       numerical_features =
         [''followers_count'', ''following_count'', ''account_age'',
          ''text_length'', ''word_count'', ''avg_word_length'',
          ''sentiment_compound'', ''sentiment_positive'', ''sentiment_negative'',
          ''sentiment_neutral'', ''mention_count'', ''url_count'', ''exclamation_count'',
          ''question_count'', ''hashtag_count'', ''avg_hashtag_length'',
          ''follower_following_ratio'', ''hour_of_day'', ''day_of_week'', ''month''],
       categorical_features = [''media_type'', ''time_category'', ''is_weekend''],
       text_feature = ''post_text'' \<rparr>"

section \<open>The serving adapter (\<open>predict_engagement\<close>)\<close>

text \<open>\<open>df.fillna(0)\<close>.\<close>

definition fillna0 :: "frame \<Rightarrow> frame" where
  "fillna0 df = map (\<lambda>(c, vs). (c, map (\<lambda>v. if v = NaN then Num 0 else v) vs)) df"

text \<open>
  The step that transforms the features: the adapter looks at the pipeline's preprocessor itself
  and calls \<open>transform\<close> only on a fitted pipeline; an exception of \<open>transform\<close> is logged
  and the raw features are used.
\<close>

definition transform_features :: "feature_engineering \<Rightarrow> frame \<Rightarrow> log \<times> frame" where
  "transform_features fe processed_data =
     (if preprocessor fe = None
      then ([(WARNING, ''Feature engineering pipeline not fitted. Using raw features.'')],
            fillna0 processed_data)
      else (case transform fe processed_data of
              (lg, Inr features) \<Rightarrow> (lg, features)
            | (lg, Inl e) \<Rightarrow>
                (lg @ [(ERROR, ''Error transforming features'')], fillna0 processed_data)))"

text \<open>
  \<open>features[name] = 0\<close>: an existing column of that name is overwritten, a new one is
  appended, with one value per row.
\<close>

definition set_column :: "frame \<Rightarrow> string \<Rightarrow> cell \<Rightarrow> frame" where
  "set_column df name v =
     (if name \<in> set (columns df)
      then map (\<lambda>(c, vs). if c = name then (c, replicate (length vs) v) else (c, vs)) df
      else df @ [(name, replicate (nrows df) v)])"

text \<open>
  \<open>features[names]\<close>: the columns of each name, in the order of \<open>names\<close> (every column of
  that name, should the frame have several); a name the frame lacks is a \<open>KeyError\<close>.
\<close>

definition select_columns :: "frame \<Rightarrow> string list \<Rightarrow> error + frame" where
  "select_columns df names =
     (if list_all (\<lambda>n. n \<in> set (columns df)) names
      then Inr (concat (map (\<lambda>n. filter (\<lambda>(c, vs). c = n) df) names))
      else Inl (KeyError ''not in index''))"

text \<open>
  The column reconciliation before \<open>engagement_model.predict\<close>. The guard is the truth
  value of \<open>engagement_model.feature_names\<close>: \<open>None\<close> and the empty list skip the step.
\<close>

definition reconcile_columns :: "string list option \<Rightarrow> frame \<Rightarrow> log \<times> (error + frame)" where
  "reconcile_columns fnames features =
     (case fnames of
        None \<Rightarrow> ([], Inr features)
      | Some names \<Rightarrow>
          if names = [] then ([], Inr features)
          else
            (let missing_features = filter (\<lambda>f. f \<notin> set (columns features)) names;
                 extra_features = filter (\<lambda>f. f \<notin> set names) (columns features);
                 features1 =
                   (if missing_features \<noteq> []
                    then foldl (\<lambda>df f. set_column df f (Num 0)) features missing_features
                    else features)
             in ((if missing_features \<noteq> [] then [(WARNING, ''Missing features'')] else [])
                 @ (if extra_features \<noteq> []
                    then [(WARNING, ''Extra features that will be dropped'')] else []),
                 select_columns features1 names)))"

subsection \<open>The confidence score\<close>

text \<open>
  The request as \<open>post_data.dict()\<close> gives it. The three counters are optional integers:
  a request may carry an explicit null for them.
\<close>

record post_data =
  post_text :: string
  media_type :: string
  hashtags :: string
  followers_count :: "int option"
  following_count :: "int option"
  account_age :: "int option"

text \<open>
  The base confidence, from \<open>engagement_model.metrics\<close>: the validation R2 clipped to
  [0.5, 0.9], and 0.7 without validation metrics. A missing key \<open>r2\<close> is a \<open>KeyError\<close>.
\<close>

definition base_confidence :: "metrics_t \<Rightarrow> error + real" where
  "base_confidence ms =
     (case map_of ms ''val'' of
        None \<Rightarrow> Inr 0.7
      | Some val \<Rightarrow>
          (case map_of val ''average'' of
             None \<Rightarrow> Inr 0.7
           | Some average \<Rightarrow>
               (case map_of average ''r2'' of
                  None \<Rightarrow> Inl (KeyError ''r2'')
                | Some r2 \<Rightarrow> Inr (max 0.5 (min 0.9 r2)))))"

text \<open>
  The data-quality multiplier. Comparing a null counter with a number raises a
  \<open>TypeError\<close>; \<open>and\<close> does not evaluate \<open>following_count\<close> when \<open>followers_count\<close> is not
  positive.
\<close>

definition text_factor :: "string \<Rightarrow> real" where
  "text_factor txt =
     (if length txt < 10 then 1 * 0.9 else if length txt > 500 then 1 * 0.95 else 1)"

definition ratio_factor :: "int option \<Rightarrow> int option \<Rightarrow> error + real" where
  "ratio_factor followers following =
     (case followers of
        None \<Rightarrow> Inl TypeError
      | Some fo \<Rightarrow>
          if fo > 0 then
            (case following of
               None \<Rightarrow> Inl TypeError
             | Some fg \<Rightarrow>
                 if fg > 0 then
                   (let ratio = real_of_int fo / real_of_int fg in
                    if ratio > 100 then Inr 0.9
                    else if ratio < 0.01 then Inr 0.9
                    else Inr 1)
                 else Inr 1)
          else Inr 1)"

definition age_factor :: "int option \<Rightarrow> error + real" where
  "age_factor age =
     (case age of None \<Rightarrow> Inl TypeError | Some a \<Rightarrow> if a < 30 then Inr 0.9 else Inr 1)"

definition hashtag_factor :: "string \<Rightarrow> real" where
  "hashtag_factor tags =
     (let hashtag_count = (if tags \<noteq> [] then length (split_on CHR '','' tags) else 0)
      in if hashtag_count > 10 then 0.95 else 1)"

definition data_quality_score :: "post_data \<Rightarrow> error + real" where
  "data_quality_score p =
     (case ratio_factor (followers_count p) (following_count p) of
        Inl e \<Rightarrow> Inl e
      | Inr r \<Rightarrow>
          (case age_factor (account_age p) of
             Inl e \<Rightarrow> Inl e
           | Inr a \<Rightarrow> Inr (text_factor (post_text p) * r * a * hashtag_factor (hashtags p))))"

text \<open>
  The prediction-stability multiplier, from the first predicted row (a series indexed by
  the target names): \<open>np.mean\<close> and \<open>np.std\<close> of likes, shares and comments.
\<close>

definition series_get :: "(string \<times> real) list \<Rightarrow> string \<Rightarrow> error + real" where
  "series_get row k = (case map_of row k of None \<Rightarrow> Inl (KeyError k) | Some v \<Rightarrow> Inr v)"

definition np_std :: "real list \<Rightarrow> real" where
  "np_std xs = sqrt (mean (map (\<lambda>x. (x - mean xs)\<^sup>2) xs))"

definition stability :: "real list \<Rightarrow> real" where
  "stability prediction_values =
     (let prediction_mean = mean prediction_values;
          prediction_std = np_std prediction_values;
          c1 = (if prediction_mean > 0 \<and> prediction_std / prediction_mean > 1 then 1 * 0.9 else 1)
      in if prediction_mean > 1000 then c1 * 0.9
         else if prediction_mean < 5 then c1 * 0.9
         else c1)"

definition prediction_confidence :: "(string \<times> real) list \<Rightarrow> error + real" where
  "prediction_confidence prediction =
     (case series_get prediction ''likes'' of
        Inl e \<Rightarrow> Inl e
      | Inr likes \<Rightarrow>
          (case series_get prediction ''shares'' of
             Inl e \<Rightarrow> Inl e
           | Inr shares \<Rightarrow>
               (case series_get prediction ''comments'' of
                  Inl e \<Rightarrow> Inl e
                | Inr comments \<Rightarrow> Inr (stability [likes, shares, comments]))))"

text \<open>The body of the \<open>try\<close>: the product of the three, clamped to [0.5, 0.95].\<close>

definition confidence_body :: "metrics_t \<Rightarrow> post_data \<Rightarrow> (string \<times> real) list \<Rightarrow> error + real" where
  "confidence_body ms p prediction =
     (case base_confidence ms of
        Inl e \<Rightarrow> Inl e
      | Inr b \<Rightarrow>
          (case data_quality_score p of
             Inl e \<Rightarrow> Inl e
           | Inr q \<Rightarrow>
               (case prediction_confidence prediction of
                  Inl e \<Rightarrow> Inl e
                | Inr c \<Rightarrow> Inr (max 0.5 (min 0.95 (b * q * c))))))"

text \<open>The handler: any exception of the body gives the fallback score 0.7.\<close>

definition confidence_score :: "metrics_t \<Rightarrow> post_data \<Rightarrow> (string \<times> real) list \<Rightarrow> real" where
  "confidence_score ms p prediction =
     (case confidence_body ms p prediction of Inl e \<Rightarrow> 0.7 | Inr c \<Rightarrow> c)"

section \<open>The post-time recommender (\<open>EngagementModel.recommend_post_time\<close>)\<close>

text \<open>
  A naive \<open>datetime\<close>: the proleptic ordinal of its date and the time of day.
  \<open>weekday()\<close> is Monday = 0, which is \<open>(toordinal() + 6) % 7\<close>.
\<close>

record datetime =
  ordinal :: int
  hour :: nat
  minute :: nat
  second :: nat
  microsecond :: nat

definition weekday :: "datetime \<Rightarrow> nat" where
  "weekday d = nat ((ordinal d + 6) mod 7)"

text \<open>The order of two datetimes.\<close>

definition dt_less :: "datetime \<Rightarrow> datetime \<Rightarrow> bool" where
  "dt_less a b =
     (ordinal a < ordinal b \<or>
      (ordinal a = ordinal b \<and>
       (hour a < hour b \<or>
        (hour a = hour b \<and>
         (minute a < minute b \<or>
          (minute a = minute b \<and>
           (second a < second b \<or>
            (second a = second b \<and> microsecond a < microsecond b))))))))"

text \<open>\<open>feature_cols.index(name)\<close> for a name that is in the list.\<close>

definition index_of :: "string list \<Rightarrow> string \<Rightarrow> nat" where
  "index_of xs x = length (takeWhile (\<lambda>y. y \<noteq> x) xs)"

text \<open>\<open>X_copy[:, idx] = v\<close> on a two-dimensional array.\<close>

definition set_col :: "cell list list \<Rightarrow> nat \<Rightarrow> cell \<Rightarrow> error + cell list list" where
  "set_col X idx v =
     (if list_all (\<lambda>row. idx < length row) X then Inr (map (\<lambda>row. row[idx := v]) X)
      else Inl IndexError)"

definition set_time :: "cell list list \<Rightarrow> nat \<Rightarrow> nat \<Rightarrow> nat \<Rightarrow> nat \<Rightarrow> error + cell list list" where
  "set_time X hour_idx day_idx h d =
     (case set_col X hour_idx (Num (real h)) of
        Inl e \<Rightarrow> Inl e
      | Inr X1 \<Rightarrow> set_col X1 day_idx (Num (real d)))"

text \<open>
  The total engagement of the first row: \<open>sum(pred[0] for pred in predictions)\<close> for a
  list, \<open>np.sum(predictions[0])\<close> for an array.
\<close>

definition first_row_total :: "predictions \<Rightarrow> error + real" where
  "first_row_total P =
     (case P of
        PerTarget cols \<Rightarrow>
          if list_all (\<lambda>c. c \<noteq> []) cols then Inr (sum_list (map hd cols)) else Inl IndexError
      | Matrix rows \<Rightarrow> (case rows of [] \<Rightarrow> Inl IndexError | r # rest \<Rightarrow> Inr (sum_list r)))"

definition predicted_total :: "pyobj option \<Rightarrow> cell list list \<Rightarrow> error + real" where
  "predicted_total mdl X =
     (case mdl of
        None \<Rightarrow> Inl AttributeError
      | Some obj \<Rightarrow>
          (case model_predict obj X of Inl e \<Rightarrow> Inl e | Inr P \<Rightarrow> first_row_total P))"

text \<open>
  One pass of the loop body, on the loop's variables: the array being overwritten, the
  best engagement so far, and the best hour and day (\<open>None\<close> until a combination beats
  the start value -1).
\<close>

type_synonym search = "cell list list \<times> real \<times> nat option \<times> nat option"

definition grid_step :: "pyobj option \<Rightarrow> nat \<Rightarrow> nat \<Rightarrow> search \<Rightarrow> nat \<times> nat \<Rightarrow> error + search" where
  "grid_step mdl hour_idx day_idx st dh =
     (case st of (X_copy, best_engagement, best_hour, best_day) \<Rightarrow>
      case dh of (d, h) \<Rightarrow>
        (case set_time X_copy hour_idx day_idx h d of
           Inl e \<Rightarrow> Inl e
         | Inr X2 \<Rightarrow>
             (case predicted_total mdl X2 of
                Inl e \<Rightarrow> Inl e
              | Inr total_eng \<Rightarrow>
                  if total_eng > best_engagement then Inr (X2, total_eng, Some h, Some d)
                  else Inr (X2, best_engagement, best_hour, best_day))))"

fun grid_loop :: "(search \<Rightarrow> nat \<times> nat \<Rightarrow> error + search) \<Rightarrow> search \<Rightarrow> (nat \<times> nat) list \<Rightarrow> error + search" where
  "grid_loop f st [] = Inr st"
| "grid_loop f st (dh # rest) =
     (case f st dh of Inl e \<Rightarrow> Inl e | Inr st' \<Rightarrow> grid_loop f st' rest)"

text \<open>\<open>for day in range(7): for hour in range(24)\<close>, as the list of its 168 passes.\<close>

definition grid :: "(nat \<times> nat) list" where
  "grid = concat (map (\<lambda>d. map (\<lambda>h. (d, h)) [0 ..< 24]) [0 ..< 7])"

text \<open>
  \<open>recommend_post_time\<close>, with \<open>now\<close> the value of \<open>datetime.now()\<close>. \<open>feature_cols\<close> is the
  list passed, or \<open>None\<close>. The early returns log a warning and return \<open>None\<close>; so does an
  exception inside the loop. The date arithmetic after the loop is outside every \<open>try\<close>:
  with no best day found, \<open>best_day - now.weekday()\<close> raises a \<open>TypeError\<close>.
\<close>

definition recommend_post_time ::
  "engagement_model \<Rightarrow> cell list list \<Rightarrow> string list option \<Rightarrow> datetime \<Rightarrow>
     log \<times> (error + datetime option)" where
  "recommend_post_time m X feature_cols now =
     (case (case feature_cols of None \<Rightarrow> feature_names m | Some fc \<Rightarrow> Some fc) of
        None \<Rightarrow> ([(WARNING, ''Cannot recommend post time: feature_names not available'')], Inr None)
      | Some cols \<Rightarrow>
          if ''hour_of_day'' \<notin> set cols \<or> ''day_of_week'' \<notin> set cols
          then ([(WARNING, ''Cannot recommend post time: hour_of_day or day_of_week not in features'')],
                Inr None)
          else
            (let hour_idx = index_of cols ''hour_of_day'';
                 day_idx = index_of cols ''day_of_week''
             in case grid_loop (grid_step (model m) hour_idx day_idx) (X, - 1, None, None) grid of
                  Inl e \<Rightarrow> ([(WARNING, ''Error during post time recommendation'')], Inr None)
                | Inr (X_copy, best_engagement, best_hour, best_day) \<Rightarrow>
                    ([],
                     case best_day of
                       None \<Rightarrow> Inl TypeError
                     | Some bd \<Rightarrow>
                         (case best_hour of
                            None \<Rightarrow> Inl TypeError
                          | Some bh \<Rightarrow>
                              (let days_ahead = (int bd - int (weekday now)) mod 7;
                                   days_ahead = (if days_ahead = 0 \<and> hour now \<ge> bh then 7 else days_ahead)
                               in Inr (Some (now\<lparr>ordinal := ordinal now + days_ahead, hour := bh,
                                                  minute := 0, second := 0, microsecond := 0\<rparr>)))))))"

text \<open>
  The total predicted engagement of the input at a day and an hour: what one pass of the
  loop computes, taken from the array as it was passed.
\<close>

definition engagement_at :: "pyobj option \<Rightarrow> cell list list \<Rightarrow> nat \<Rightarrow> nat \<Rightarrow> nat \<Rightarrow> nat \<Rightarrow> error + real" where
  "engagement_at mdl X hour_idx day_idx d h =
     (case set_time X hour_idx day_idx h d of
        Inl e \<Rightarrow> Inl e
      | Inr X2 \<Rightarrow> predicted_total mdl X2)"

section \<open>Sample values\<close>

text \<open>Concrete objects, files and requests at which the properties below are evaluated.\<close>

definition sample_regressor :: regressor where
  "sample_regressor =
     \<lparr>reg_predict = (\<lambda>X. Inr (Matrix [[1, 2, 3]])), enable_categorical = Some False\<rparr>"

definition sample_metadata :: metadata where
  "sample_metadata =
     \<lparr> md_model_type = ''xgboost'', md_feature_names = Some [''hour_of_day'', ''day_of_week''],
       md_target_names = [''likes'', ''shares'', ''comments''],
       md_metrics = [(''val'', [(''average'', [(''r2'', 0.8)])])],
       md_feature_importance = [(''hour_of_day'', 0.6), (''day_of_week'', 0.4)],
       md_timestamp = ''2024-01-01T00:00:00'' \<rparr>"

text \<open>A model directory with one complete model, \<open>m1\<close>, and one without metadata, \<open>m2\<close>.\<close>

definition sample_files :: files where
  "sample_files =
     (\<lambda>p. if p = ''models/m1.joblib'' then Some (ORegressor sample_regressor)
          else if p = ''models/m1_metadata.joblib'' then Some (OMetadata sample_metadata)
          else if p = ''models/m2.joblib'' then Some (ORegressor sample_regressor)
          else None)"

text \<open>
  A model directory in which the weights of \<open>m1\<close> can be read and its metadata file
  exists and cannot be read back (a truncated file).
\<close>

definition truncated_files :: files where
  "truncated_files =
     (\<lambda>p. if p = ''models/m1.joblib'' then Some (ORegressor sample_regressor)
          else if p = ''models/m1_metadata.joblib'' then Some Corrupt
          else None)"

text \<open>A request with no text, no hashtags, no followers and a new account.\<close>

definition edge_request :: post_data where
  "edge_request =
     \<lparr> post_text = [], media_type = ''text'', hashtags = [],
       followers_count = Some 0, following_count = Some 0, account_age = Some 0 \<rparr>"

text \<open>A request that carries an explicit null for \<open>followers_count\<close>.\<close>

definition null_request :: post_data where
  "null_request =
     \<lparr> post_text = ''hello'', media_type = ''text'', hashtags = [],
       followers_count = None, following_count = Some 0, account_age = Some 0 \<rparr>"

text \<open>The features of one request, before reconciliation.\<close>

definition sample_features :: frame where
  "sample_features =
     [(''text_length'', [Num 12]), (''media_type_image'', [Num 1]), (''hour_of_day'', [Num 9])]"

text \<open>
  A fitted regressor over the two columns \<open>hour_of_day\<close> and \<open>day_of_week\<close> whose three
  targets are the hour, the day and 1, a model that holds it, and a time of call (a
  Wednesday, 09:30:15).
\<close>

definition hourly_regressor :: regressor where
  "hourly_regressor =
     \<lparr>reg_predict =
        (\<lambda>X. case X of
               [Num a, Num b] # rest \<Rightarrow> Inr (Matrix [[a, b, 1]])
             | _ \<Rightarrow> Inl LibraryError),
      enable_categorical = None\<rparr>"

definition hourly_model :: engagement_model where
  "hourly_model =
     (init ''xgboost'' ''models'')
       \<lparr>model := Some (ORegressor hourly_regressor),
        feature_names := Some [''hour_of_day'', ''day_of_week'']\<rparr>"

definition sample_now :: datetime where
  "sample_now = \<lparr>ordinal = 739000, hour = 9, minute = 30, second = 15, microsecond = 0\<rparr>"

section \<open>Properties\<close>

subsection \<open>Hashtag features\<close>

lemma split_on_nonempty: "split_on sep s \<noteq> []"
  by (induction s) (auto split: list.splits)

lemma length_split_on: "length (split_on sep s) = Suc (count_list s sep)"
  by (induction s) (auto split: list.splits simp: split_on_nonempty)

lemma split_on_no_sep: "seg \<in> set (split_on sep s) \<Longrightarrow> sep \<notin> set seg"
proof (induction s arbitrary: seg)
  case Nil
  then show ?case by simp
next
  case (Cons c cs)
  obtain h t where ht: "split_on sep cs = h # t"
    using split_on_nonempty [of sep cs] by (cases "split_on sep cs") auto
  show ?case
  proof (cases "c = sep")
    case True
    with Cons show ?thesis by auto
  next
    case False
    with Cons.prems ht have "seg = c # h \<or> seg \<in> set t" by auto
    then show ?thesis
    proof
      assume "seg = c # h"
      moreover have "sep \<notin> set h" using Cons.IH [of h] ht by simp
      ultimately show ?thesis using False by auto
    next
      assume "seg \<in> set t"
      then show ?thesis using Cons.IH [of seg] ht by simp
    qed
  qed
qed

lemma join_on_Cons: "segs \<noteq> [] \<Longrightarrow> join_on sep (seg # segs) = seg @ sep # join_on sep segs"
  by (cases segs) auto

lemma join_split_on: "join_on sep (split_on sep s) = s"
proof (induction s)
  case Nil
  then show ?case by simp
next
  case (Cons c cs)
  obtain h t where ht: "split_on sep cs = h # t"
    using split_on_nonempty [of sep cs] by (cases "split_on sep cs") auto
  show ?case
  proof (cases "c = sep")
    case True
    then show ?thesis using Cons by (simp add: join_on_Cons split_on_nonempty)
  next
    case False
    then show ?thesis using Cons ht by (cases t) auto
  qed
qed

text \<open>
  Claim C8. For a non-empty string the segments are the comma-free pieces that, joined
  with commas, give the string back; \<open>hashtag_count\<close> is their number (one more than the
  number of commas) and \<open>avg_hashtag_length\<close> is the mean of their lengths after
  trimming. Both are 0 for the empty string and for a value that is not a string. The
  string \<open>innovation,tech\<close> gives the count 2 and the mean 7.
\<close>

theorem hashtag_features:
  "hashtag_count None = 0 \<and> avg_hashtag_length None = 0 \<and>
   hashtag_count (Some []) = 0 \<and> avg_hashtag_length (Some []) = 0 \<and>
   (s \<noteq> [] \<longrightarrow>
      (\<forall>seg \<in> set (split_on CHR '','' s). CHR '','' \<notin> set seg) \<and>
      join_on CHR '','' (split_on CHR '','' s) = s \<and>
      hashtag_count (Some s) = length (split_on CHR '','' s) \<and>
      hashtag_count (Some s) = Suc (count_list s CHR '','') \<and>
      avg_hashtag_length (Some s) =
        sum_list (map (\<lambda>seg. real (length (strip seg))) (split_on CHR '','' s))
          / real (hashtag_count (Some s))) \<and>
   hashtag_count (Some ''innovation,tech'') = 2 \<and>
   avg_hashtag_length (Some ''innovation,tech'') = 7"
  by (simp add: hashtag_count_def avg_hashtag_length_def mean_def length_split_on
      split_on_no_sep join_split_on strip_def isspace_def)

theorem hashtag_features_witness:
  "hashtag_count (Some ''a, bc ,'') = 3 \<and> avg_hashtag_length (Some ''a, bc ,'') = 1"
  using hashtag_features [of "''a, bc ,''"]
  by (simp add: strip_def isspace_def)

subsection \<open>Engagement level\<close>

lemma engagement_level_positive:
  "0 < t \<Longrightarrow>
   engagement_level t = Some (if t \<le> 50 then Low else if t \<le> 200 then Medium else High)"
  by (simp add: engagement_level_def)

lemma engagement_level_None: "engagement_level t = None \<longleftrightarrow> t \<le> 0"
  by (simp add: engagement_level_def)

text \<open>
  Claim C7. The claim gives every summed prediction one of the three labels. The code's
  lowest bin is open at 0: a row whose three predicted targets sum to 0 gets no label
  (the missing value), and so does a row with a negative sum. Here a fitted regressor
  that predicts 0 likes, 0 shares and 0 comments for the one row it is given:
  \<open>predict\<close> returns that row with no engagement level.
\<close>

theorem predict_zero_sum_has_no_level:
  "predict
     ((init ''xgboost'' ''models'')
        \<lparr>model := Some (ORegressor \<lparr>reg_predict = (\<lambda>X. Inr (Matrix [[0, 0, 0]])),
                                     enable_categorical = None\<rparr>)\<rparr>)
     [(''text_length'', [Num 12])]
   = Inr [([0, 0, 0], None)]"
  by (simp add: predict_def init_def model_predict_def prediction_rows_def
      engagement_level_def total_engagement_def)

subsection \<open>The uninitialized model\<close>

text \<open>
  Claim C3, as stated, fails for \<open>get_feature_importance\<close>: on a model that was never
  trained and never loaded it returns the empty mapping instead of failing.
\<close>

theorem uninitialized_get_feature_importance_returns:
  "model (init ''xgboost'' ''models'') = None \<and>
   get_feature_importance (init ''xgboost'' ''models'') (Some 10) = Inr [] \<and>
   get_feature_importance (init ''xgboost'' ''models'') None = Inr []"
  by (simp add: init_def get_feature_importance_def py_prefix_def)

text \<open>
  Claim C3, amended. On a model whose fitted regressor is absent, \<open>predict\<close> and \<open>save\<close>
  fail at once with the not-trained \<open>ValueError\<close>. \<open>get_feature_importance\<close> does not
  fail: it returns the stored importance mapping, or its first \<open>top_n\<close> items, which is
  the empty mapping for a newly constructed model.
\<close>

theorem uninitialized_model_operations:
  "model m = None \<Longrightarrow>
   predict m X = Inl (ValueError ''Model not trained. Call train() first.'') \<and>
   save fs m filename stamp isotime = Inl (ValueError ''Model not trained. Call train() first.'') \<and>
   get_feature_importance m None = Inr (feature_importance m) \<and>
   get_feature_importance m (Some n) = Inr (py_prefix n (feature_importance m)) \<and>
   get_feature_importance (init mtype mdir) top_n = Inr []"
  by (cases top_n)
     (simp_all add: predict_def save_def get_feature_importance_def init_def py_prefix_def)

theorem uninitialized_model_operations_witness:
  "model (init ''xgboost'' ''models'') = None \<and>
   predict (init ''xgboost'' ''models'') [(''text_length'', [Num 12])]
     = Inl (ValueError ''Model not trained. Call train() first.'') \<and>
   save (\<lambda>p. None) (init ''xgboost'' ''models'') None ''20240101_000000'' ''2024-01-01T00:00:00''
     = Inl (ValueError ''Model not trained. Call train() first.'') \<and>
   get_feature_importance (init ''xgboost'' ''models'') (Some 10) = Inr []"
  using uninitialized_model_operations
    [of "init ''xgboost'' ''models''" "[(''text_length'', [Num 12])]" "\<lambda>p. None" None
        "''20240101_000000''" "''2024-01-01T00:00:00''" 10 "''xgboost''" "''models''" "Some 10"]
  by (simp add: init_def py_prefix_def)

subsection \<open>Transform before fit\<close>

text \<open>
  Claim C4, as stated, fails: \<open>transform\<close> on a pipeline that was never fitted raises
  nothing. It returns the empty frame, whatever the input holds.
\<close>

theorem transform_unfitted_returns_empty_frame:
  "transform new_feature_engineering
     [(''post_text'', [Str ''hello'']), (''followers_count'', [Num 5])]
   = ([(WARNING, ''Preprocessor not fitted. Returning empty feature set.'')], Inr [])"
  by (simp add: transform_def new_feature_engineering_def)

text \<open>
  Claim C4, amended. Before \<open>fit\<close>, \<open>transform\<close> logs a warning and returns an empty
  feature set: no error, and no data of the input either. The serving adapter does not
  rely on \<open>transform\<close> for this case: it tests the preprocessor itself, logs a warning and
  uses the raw features with missing values filled by 0.
\<close>

theorem transform_before_fit:
  "preprocessor fe = None \<Longrightarrow>
   transform fe df
     = ([(WARNING, ''Preprocessor not fitted. Returning empty feature set.'')], Inr []) \<and>
   transform_features fe df
     = ([(WARNING, ''Feature engineering pipeline not fitted. Using raw features.'')], fillna0 df)"
  by (simp add: transform_def transform_features_def)

theorem transform_before_fit_witness:
  "preprocessor new_feature_engineering = None \<and>
   transform new_feature_engineering [(''followers_count'', [NaN])]
     = ([(WARNING, ''Preprocessor not fitted. Returning empty feature set.'')], Inr []) \<and>
   transform_features new_feature_engineering [(''followers_count'', [NaN])]
     = ([(WARNING, ''Feature engineering pipeline not fitted. Using raw features.'')],
        [(''followers_count'', [Num 0])])"
  using transform_before_fit [of new_feature_engineering "[(''followers_count'', [NaN])]"]
  by (simp add: new_feature_engineering_def fillna0_def)

subsection \<open>Recommendation without the time features\<close>

text \<open>
  Claim C6. When the feature-name list in use (the one passed, or the model's own when
  none is passed) lacks \<open>hour_of_day\<close> or \<open>day_of_week\<close>, \<open>recommend_post_time\<close> logs one
  warning and returns \<open>None\<close>; it raises nothing, for every input array, model and time.
\<close>

theorem recommend_without_time_features:
  "''hour_of_day'' \<notin> set cols \<or> ''day_of_week'' \<notin> set cols \<Longrightarrow>
   feature_cols = Some cols \<or> (feature_cols = None \<and> feature_names m = Some cols) \<Longrightarrow>
   recommend_post_time m X feature_cols now
     = ([(WARNING, ''Cannot recommend post time: hour_of_day or day_of_week not in features'')],
        Inr None)"
  by (auto simp: recommend_post_time_def)

theorem recommend_without_time_features_witness:
  "recommend_post_time (init ''xgboost'' ''models'') [[Num 1, Num 2]]
     (Some [''text_length'', ''day_of_week''])
     \<lparr>ordinal = 739000, hour = 9, minute = 30, second = 0, microsecond = 0\<rparr>
   = ([(WARNING, ''Cannot recommend post time: hour_of_day or day_of_week not in features'')],
      Inr None)"
  using recommend_without_time_features
    [of "[''text_length'', ''day_of_week'']" "Some [''text_length'', ''day_of_week'']"
        "init ''xgboost'' ''models''" "[[Num 1, Num 2]]"
        "\<lparr>ordinal = 739000, hour = 9, minute = 30, second = 0, microsecond = 0\<rparr>"]
  by simp

subsection \<open>Loading a model\<close>

text \<open>
  What holds of \<open>load\<close>. It looks for both files before it assigns anything: when the
  weights file or the metadata file is absent it fails with \<open>FileNotFoundError\<close> and the
  object is as it was. When the two files hold a regressor and its metadata, the
  regressor (with categorical support switched on where the code does so) and the five
  attributes of the metadata are all restored.
\<close>

lemma load_absent_file:
  "fs (path_join (model_dir m) (filename @ ''.joblib'')) = None \<or>
   fs (path_join (model_dir m) (filename @ ''_metadata.joblib'')) = None \<Longrightarrow>
   fst (load fs m filename) = m \<and>
   (\<exists>path. snd (load fs m filename) = Some (FileNotFoundError path))"
  by (auto simp: load_def Let_def)

lemma load_well_formed:
  "fs (path_join (model_dir m) (filename @ ''.joblib'')) = Some (ORegressor r) \<Longrightarrow>
   fs (path_join (model_dir m) (filename @ ''_metadata.joblib'')) = Some (OMetadata md) \<Longrightarrow>
   load fs m filename
     = (\<lparr> model_type = md_model_type md,
           model_dir = model_dir m,
           model = Some (set_categorical (model_type m) (ORegressor r)),
           feature_names = md_feature_names md,
           target_names = md_target_names md,
           metrics = md_metrics md,
           feature_importance = md_feature_importance md \<rparr>, None)"
  by (simp add: load_def Let_def joblib_load_def)

lemma load_sample_files:
  "load sample_files (init ''xgboost'' ''models'') ''m2''
     = (init ''xgboost'' ''models'', Some (FileNotFoundError ''models/m2_metadata.joblib'')) \<and>
   load sample_files (init ''xgboost'' ''models'') ''m3''
     = (init ''xgboost'' ''models'', Some (FileNotFoundError ''models/m3.joblib'')) \<and>
   load sample_files (init ''lightgbm'' ''models'') ''m1''
     = (\<lparr> model_type = ''xgboost'', model_dir = ''models'',
           model = Some (ORegressor sample_regressor),
           feature_names = Some [''hour_of_day'', ''day_of_week''],
           target_names = [''likes'', ''shares'', ''comments''],
           metrics = [(''val'', [(''average'', [(''r2'', 0.8)])])],
           feature_importance = [(''hour_of_day'', 0.6), (''day_of_week'', 0.4)] \<rparr>, None)"
  by (simp add: load_def Let_def joblib_load_def sample_files_def init_def path_join_def
      set_categorical_def sample_metadata_def)

text \<open>
  Claim C9. The claim says that \<open>load\<close> never restores the state in part, and that with
  both files present all of the state is restored. The code assigns \<open>self.model\<close> before
  it reads the metadata file. Here both files are present, the weights file holds a
  regressor and the metadata file cannot be read back: \<open>load\<close> raises the library's
  exception, which is no not-found condition, and leaves the object with the loaded
  regressor beside the feature names, target names, metrics and importance it had
  before; on a new model the feature names are still absent.
\<close>

theorem load_unreadable_metadata_restores_in_part:
  "truncated_files ''models/m1.joblib'' = Some (ORegressor sample_regressor) \<and>
   truncated_files ''models/m1_metadata.joblib'' = Some Corrupt \<and>
   load truncated_files (init ''lightgbm'' ''models'') ''m1''
     = (\<lparr> model_type = ''lightgbm'', model_dir = ''models'',
           model = Some (ORegressor sample_regressor),
           feature_names = None,
           target_names = [''likes'', ''shares'', ''comments''],
           metrics = [],
           feature_importance = [] \<rparr>, Some LibraryError)"
  by (simp add: load_def Let_def joblib_load_def truncated_files_def init_def path_join_def
      set_categorical_def)

subsection \<open>Loading a pipeline\<close>

text \<open>
  Claim C10. \<open>FeatureEngineering.load\<close> returns a truth value on every path: \<open>True\<close>
  exactly when the body of its \<open>try\<close> ran to the end (a saved instance or a complete
  dictionary was read), \<open>False\<close> with the same log record for every exception, whatever
  its cause, a missing file included. After \<open>False\<close> an unfitted pipeline is still
  unfitted when the file was missing or unreadable.
\<close>

theorem pipeline_load_never_raises:
  "fst (FeatureEngineering_load fs fe filepath) = fst (load_body fs fe filepath) \<and>
   (snd (snd (FeatureEngineering_load fs fe filepath)) \<longleftrightarrow> snd (load_body fs fe filepath) = None) \<and>
   (snd (load_body fs fe filepath) \<noteq> None \<longrightarrow>
      snd (FeatureEngineering_load fs fe filepath)
        = ([(ERROR, ''Error loading feature engineering pipeline'')], False)) \<and>
   (fs filepath = None \<longrightarrow>
      FeatureEngineering_load fs fe filepath
        = (fe, [(ERROR, ''Error loading feature engineering pipeline'')], False)) \<and>
   (fs filepath = Some (OFEInstance inst) \<longrightarrow>
      FeatureEngineering_load fs fe filepath = (inst, [], True)) \<and>
   (fs filepath = Some (OFEDict \<lparr>d_preprocessor = Some p, d_tfidf_vectorizer = Some t,
                                  d_numerical_features = Some ns, d_categorical_features = Some cs,
                                  d_text_feature = Some x\<rparr>) \<longrightarrow>
      FeatureEngineering_load fs fe filepath
        = (\<lparr>preprocessor = p, tfidf_vectorizer = t, numerical_features = ns,
            categorical_features = cs, text_feature = x\<rparr>, [], True)) \<and>
   (preprocessor fe = None \<and> (fs filepath = None \<or> fs filepath = Some Corrupt) \<longrightarrow>
      preprocessor (fst (FeatureEngineering_load fs fe filepath)) = None \<and>
      \<not> snd (snd (FeatureEngineering_load fs fe filepath)))"
  by (cases "load_body fs fe filepath"; cases "snd (load_body fs fe filepath)")
     (auto simp: FeatureEngineering_load_def load_body_def joblib_load_def assign_from_dict_def)

theorem pipeline_load_never_raises_witness:
  "FeatureEngineering_load (\<lambda>p. None) new_feature_engineering
     ''models/feature_engineering_1.joblib''
     = (new_feature_engineering, [(ERROR, ''Error loading feature engineering pipeline'')], False) \<and>
   FeatureEngineering_load (\<lambda>p. Some Corrupt) new_feature_engineering
     ''models/feature_engineering_1.joblib''
     = (new_feature_engineering, [(ERROR, ''Error loading feature engineering pipeline'')], False) \<and>
   preprocessor new_feature_engineering = None"
  using pipeline_load_never_raises
      [of "\<lambda>p. None" new_feature_engineering "''models/feature_engineering_1.joblib''"]
    pipeline_load_never_raises
      [of "\<lambda>p. Some Corrupt" new_feature_engineering "''models/feature_engineering_1.joblib''"]
  by (simp add: FeatureEngineering_load_def load_body_def joblib_load_def
      new_feature_engineering_def)

subsection \<open>The confidence score\<close>

lemma edge_dq: "data_quality_score edge_request = Inr 0.81"
  by (simp add: data_quality_score_def edge_request_def ratio_factor_def age_factor_def
      text_factor_def hashtag_factor_def)

lemma stable_prediction:
  "prediction_confidence [(''likes'', 10), (''shares'', 10), (''comments'', 10)] = Inr 1"
  by (simp add: prediction_confidence_def series_get_def stability_def np_std_def mean_def)

lemma edge_score:
  "confidence_score [] edge_request [(''likes'', 10), (''shares'', 10), (''comments'', 10)] = 0.567"
  by (simp add: confidence_score_def confidence_body_def base_confidence_def edge_dq
      stable_prediction)

lemma null_body:
  "confidence_body [] null_request [(''likes'', 10), (''shares'', 10), (''comments'', 10)]
   = Inl TypeError"
  by (simp add: confidence_body_def base_confidence_def data_quality_score_def null_request_def
      ratio_factor_def)

text \<open>
  Claim C2. The confidence score of every request lies in [0.5, 0.95]: on the normal
  path it is the product of the base confidence, the data-quality multiplier and the
  prediction-stability multiplier, clamped to that interval; when any of the three
  raises, the handler gives 0.7.
\<close>

theorem confidence_score_range:
  "0.5 \<le> confidence_score ms p prediction \<and> confidence_score ms p prediction \<le> 0.95 \<and>
   (\<forall>e. confidence_body ms p prediction = Inl e \<longrightarrow> confidence_score ms p prediction = 0.7) \<and>
   (\<forall>b q c. base_confidence ms = Inr b \<and> data_quality_score p = Inr q \<and>
            prediction_confidence prediction = Inr c \<longrightarrow>
            confidence_score ms p prediction = max 0.5 (min 0.95 (b * q * c))) \<and>
   ((\<exists>e. base_confidence ms = Inl e) \<or> (\<exists>e. data_quality_score p = Inl e) \<or>
    (\<exists>e. prediction_confidence prediction = Inl e) \<longrightarrow>
      confidence_score ms p prediction = 0.7)"
  by (auto simp: confidence_score_def confidence_body_def split: sum.splits)

theorem confidence_score_range_witness:
  "confidence_score [] edge_request [(''likes'', 10), (''shares'', 10), (''comments'', 10)] = 0.567 \<and>
   confidence_body [] null_request [(''likes'', 10), (''shares'', 10), (''comments'', 10)]
     = Inl TypeError \<and>
   confidence_score [] null_request [(''likes'', 10), (''shares'', 10), (''comments'', 10)] = 0.7"
proof -
  have "confidence_score [] null_request [(''likes'', 10), (''shares'', 10), (''comments'', 10)] = 0.7"
    using confidence_score_range
      [of "[]" null_request "[(''likes'', 10), (''shares'', 10), (''comments'', 10)]"] null_body
    by blast
  then show ?thesis using edge_score null_body by simp
qed

subsection \<open>Column reconciliation\<close>

lemma filter_absent: "n \<notin> fst ` set df \<Longrightarrow> filter (\<lambda>(c, vs). c = n) df = []"
  by (induction df) auto

lemma filter_column:
  "distinct (map fst df) \<Longrightarrow> map_of df n = Some vs \<Longrightarrow> filter (\<lambda>(c, vs). c = n) df = [(n, vs)]"
proof (induction df)
  case Nil
  then show ?case by simp
next
  case (Cons a df)
  obtain c ws where a: "a = (c, ws)" by (cases a)
  show ?case
  proof (cases "c = n")
    case True
    with Cons.prems a show ?thesis by (simp add: filter_absent)
  next
    case False
    with Cons a show ?thesis by simp
  qed
qed

lemma columns_set_column:
  "columns (set_column df n v) = (if n \<in> set (columns df) then columns df else columns df @ [n])"
  by (auto simp: set_column_def columns_def split: prod.splits intro!: map_idI)

lemma nrows_set_column: "nrows (set_column df n v) = nrows df"
  by (cases df) (auto simp: set_column_def nrows_def columns_def split: prod.splits)

lemma map_of_overwrite:
  "map_of (map (\<lambda>(c, vs). if c = n then (c, replicate (length vs) v) else (c, vs)) df) x
   = (if x = n then map_option (\<lambda>vs. replicate (length vs) v) (map_of df n) else map_of df x)"
  by (induction df) auto

lemma map_of_set_column:
  "map_of (set_column df n v) x
   = (if x = n
      then Some (replicate (case map_of df n of Some vs \<Rightarrow> length vs | None \<Rightarrow> nrows df) v)
      else map_of df x)"
proof (cases "n \<in> set (columns df)")
  case True
  then obtain vs where "map_of df n = Some vs"
    by (auto simp: columns_def dest!: weak_map_of_SomeI) 
  with True show ?thesis by (simp add: set_column_def map_of_overwrite)
next
  case False
  then have "map_of df n = None" by (simp add: columns_def map_of_eq_None_iff)
  with False show ?thesis by (auto simp: set_column_def map_add_def columns_def split: option.splits)
qed

lemma foldl_set_column:
  "distinct (columns df) \<Longrightarrow>
   (\<forall>n \<in> set ms. map_of df n = None \<or> map_of df n = Some (replicate (nrows df) z)) \<Longrightarrow>
   distinct (columns (foldl (\<lambda>df f. set_column df f z) df ms)) \<and>
   set (columns (foldl (\<lambda>df f. set_column df f z) df ms)) = set (columns df) \<union> set ms \<and>
   (\<forall>x. map_of (foldl (\<lambda>df f. set_column df f z) df ms) x
        = (if x \<in> set ms then Some (replicate (nrows df) z) else map_of df x))"
proof (induction ms arbitrary: df)
  case Nil
  then show ?case by simp
next
  case (Cons n ms)
  let ?df = "set_column df n z"
  have len: "(case map_of df n of Some vs \<Rightarrow> length vs | None \<Rightarrow> nrows df) = nrows df"
    using Cons.prems(2) by (auto split: option.splits)
  have d: "distinct (columns ?df)" using Cons.prems(1) by (simp add: columns_set_column)
  have m: "map_of ?df x = (if x = n then Some (replicate (nrows df) z) else map_of df x)" for x
    by (simp add: map_of_set_column len)
  have p: "\<forall>k \<in> set ms. map_of ?df k = None \<or> map_of ?df k = Some (replicate (nrows ?df) z)"
    using Cons.prems(2) by (simp add: m nrows_set_column)
  from Cons.IH [OF d p] show ?case
    by (auto simp: m nrows_set_column columns_set_column)
qed

lemma concat_singletons: "concat (map (\<lambda>n. [f n]) names) = map f names"
  by (induction names) auto

text \<open>
  Claim C1. With the model's frozen, non-empty list of feature names and a frame whose
  column names are distinct, the reconciliation gives the frame passed to \<open>predict\<close>:
  its columns are exactly the feature names, in their order; a name the computed features
  have keeps its values, a name they lack gets 0 in every row, and a computed column
  outside the list is gone.
\<close>

theorem reconcile_columns_parity:
  assumes "distinct (columns features)" and "names \<noteq> []"
  shows "snd (reconcile_columns (Some names) features)
         = Inr (map (\<lambda>n. (n, case map_of features n of
                                Some vs \<Rightarrow> vs
                              | None \<Rightarrow> replicate (nrows features) (Num 0))) names) \<and>
         (\<forall>out. snd (reconcile_columns (Some names) features) = Inr out \<longrightarrow> columns out = names)"
proof -
  let ?missing = "filter (\<lambda>f. f \<notin> set (columns features)) names"
  let ?f1 = "foldl (\<lambda>df f. set_column df f (Num 0)) features ?missing"
  let ?val = "\<lambda>n. case map_of features n of Some vs \<Rightarrow> vs | None \<Rightarrow> replicate (nrows features) (Num 0)"
  have pre: "\<forall>n \<in> set ?missing. map_of features n = None \<or> map_of features n = Some (replicate (nrows features) (Num 0))"
    by (auto simp: columns_def map_of_eq_None_iff)
  note F = foldl_set_column [OF assms(1) pre]
  have dist: "distinct (map fst ?f1)" using F by (simp add: columns_def)
  have cols: "set (columns ?f1) = set (columns features) \<union> set ?missing" using F by blast
  have mo: "map_of ?f1 x = (if x \<in> set ?missing then Some (replicate (nrows features) (Num 0)) else map_of features x)" for x
    using F by blast
  have all: "list_all (\<lambda>n. n \<in> set (columns ?f1)) names"
    by (auto simp: cols list_all_iff)
  have val: "map_of ?f1 n = Some (?val n)" if "n \<in> set names" for n
  proof (cases "n \<in> set (columns features)")
    case True
    then obtain vs where "map_of features n = Some vs"
      by (auto simp: columns_def dest!: weak_map_of_SomeI)
    with True show ?thesis by (simp add: mo)
  next
    case False
    then have "map_of features n = None" by (simp add: columns_def map_of_eq_None_iff)
    with False that show ?thesis by (simp add: mo)
  qed
  have eq: "map (\<lambda>n. filter (\<lambda>(c, vs). c = n) ?f1) names = map (\<lambda>n. [(n, ?val n)]) names"
    by (rule map_cong [OF refl]) (simp add: filter_column [OF dist val])
  have "concat (map (\<lambda>n. filter (\<lambda>(c, vs). c = n) ?f1) names) = map (\<lambda>n. (n, ?val n)) names"
    by (simp only: eq concat_singletons)
  then have sel: "select_columns ?f1 names = Inr (map (\<lambda>n. (n, ?val n)) names)"
    by (simp only: select_columns_def all if_True)
  have "snd (reconcile_columns (Some names) features) = select_columns ?f1 names"
    using assms(2) by (simp add: reconcile_columns_def Let_def)
  with sel have main: "snd (reconcile_columns (Some names) features) = Inr (map (\<lambda>n. (n, ?val n)) names)"
    by simp
  show ?thesis
    by (simp only: main) (simp add: columns_def comp_def)
qed

theorem reconcile_columns_parity_witness:
  "distinct (columns sample_features) \<and>
   reconcile_columns (Some [''hour_of_day'', ''day_of_week'', ''text_length'']) sample_features
   = ([(WARNING, ''Missing features''), (WARNING, ''Extra features that will be dropped'')],
      Inr [(''hour_of_day'', [Num 9]), (''day_of_week'', [Num 0]), (''text_length'', [Num 12])])"
proof -
  have d: "distinct (columns sample_features)"
    by (simp add: sample_features_def columns_def)
  have l: "fst (reconcile_columns (Some [''hour_of_day'', ''day_of_week'', ''text_length'']) sample_features)
           = [(WARNING, ''Missing features''), (WARNING, ''Extra features that will be dropped'')]"
    by (simp add: reconcile_columns_def sample_features_def columns_def Let_def)
  have "snd (reconcile_columns (Some [''hour_of_day'', ''day_of_week'', ''text_length'']) sample_features)
        = Inr [(''hour_of_day'', [Num 9]), (''day_of_week'', [Num 0]), (''text_length'', [Num 12])]"
    using reconcile_columns_parity [OF d, of "[''hour_of_day'', ''day_of_week'', ''text_length'']"]
    by (simp add: sample_features_def nrows_def)
  with l d show ?thesis by (simp add: prod_eq_iff)
qed

subsection \<open>The recommended post time\<close>

lemma list_all_update_length:
  "list_all (\<lambda>row. di < length row) (map (\<lambda>row. row[hi := v]) X)
   = list_all (\<lambda>row. di < length row) X"
  by (induction X) simp_all

lemma list_all_both:
  "list_all (\<lambda>row. hi < length row \<and> di < length row) X
   = (list_all (\<lambda>row. hi < length row) X \<and> list_all (\<lambda>row. di < length row) X)"
  by (induction X) auto

lemma set_time_eq:
  "set_time X hi di h d
   = (if list_all (\<lambda>row. hi < length row \<and> di < length row) X
      then Inr (map (\<lambda>row. row[hi := Num (real h), di := Num (real d)]) X)
      else Inl IndexError)"
  by (simp add: set_time_def set_col_def list_all_update_length list_all_both)

lemma update_overwrite:
  "row[hi := a, di := b, hi := c, di := d] = row[hi := c, di := (d::'a)]"
proof (cases "hi = di")
  case True
  then show ?thesis by simp
next
  case False
  then have "row[hi := a, di := b, hi := c] = row[hi := a, hi := c, di := b]"
    by (simp add: list_update_swap [of di hi])
  then show ?thesis by simp
qed

lemma set_time_overwrite:
  assumes "set_time X hi di h d = Inr X2"
  shows "set_time X2 hi di h' d' = set_time X hi di h' d'"
proof -
  from assms have ok: "list_all (\<lambda>row. hi < length row \<and> di < length row) X"
    and X2: "X2 = map (\<lambda>row. row[hi := Num (real h), di := Num (real d)]) X"
    by (auto simp: set_time_eq split: if_splits)
  have ok2: "list_all (\<lambda>row. hi < length row \<and> di < length row) X2"
    using ok by (simp add: X2 list_all_iff)
  show ?thesis
    using ok ok2 by (simp add: set_time_eq) (simp add: X2 update_overwrite)
qed

lemma grid_step_cases:
  assumes "grid_step mdl hi di (Xc, b0, bh0, bd0) (d, h) = Inr st"
  obtains X2 t where "set_time Xc hi di h d = Inr X2" "predicted_total mdl X2 = Inr t"
    "st = (if t > b0 then (X2, t, Some h, Some d) else (X2, b0, bh0, bd0))"
  using assms by (auto simp: grid_step_def split: sum.splits if_splits)

lemma grid_loop_invariant:
  assumes "grid_loop (grid_step mdl hi di) (Xc, b0, bh0, bd0) ps = Inr (X', best, bh, bd)"
    and "\<And>h d. set_time Xc hi di h d = set_time X hi di h d"
  shows "b0 \<le> best \<and>
         (\<forall>(d, h) \<in> set ps. \<exists>t. engagement_at mdl X hi di d h = Inr t \<and> t \<le> best) \<and>
         ((best = b0 \<and> bh = bh0 \<and> bd = bd0) \<or>
          (\<exists>(d, h) \<in> set ps. bh = Some h \<and> bd = Some d \<and> engagement_at mdl X hi di d h = Inr best))"
  using assms
proof (induction ps arbitrary: Xc b0 bh0 bd0)
  case Nil
  then show ?case by simp
next
  case (Cons p ps)
  obtain d h where p: "p = (d, h)" by (cases p)
  from Cons.prems(1) obtain st where
    step: "grid_step mdl hi di (Xc, b0, bh0, bd0) (d, h) = Inr st"
    and rest: "grid_loop (grid_step mdl hi di) st ps = Inr (X', best, bh, bd)"
    by (auto simp: p split: sum.splits)
  from step obtain X2 t where
    X2: "set_time Xc hi di h d = Inr X2" and t: "predicted_total mdl X2 = Inr t"
    and st: "st = (if t > b0 then (X2, t, Some h, Some d) else (X2, b0, bh0, bd0))"
    by (rule grid_step_cases)
  have at: "engagement_at mdl X hi di d h = Inr t"
    using X2 t Cons.prems(2) [of h d] by (simp add: engagement_at_def)
  have inv: "set_time X2 hi di h' d' = set_time X hi di h' d'" for h' d'
    using set_time_overwrite [OF X2] Cons.prems(2) by simp
  show ?case
  proof (cases "t > b0")
    case True
    with st rest have "grid_loop (grid_step mdl hi di) (X2, t, Some h, Some d) ps = Inr (X', best, bh, bd)"
      by simp
    from Cons.IH [OF this inv] True at show ?thesis
      by (auto simp: p)
  next
    case False
    with st rest have "grid_loop (grid_step mdl hi di) (X2, b0, bh0, bd0) ps = Inr (X', best, bh, bd)"
      by simp
    from Cons.IH [OF this inv] False at show ?thesis
      by (auto simp: p)
  qed
qed

lemma set_grid: "set grid = {(d, h). d < 7 \<and> h < 24}"
  by (auto simp: grid_def)

lemma mod7_shift:
  fixes d k ord :: int
  assumes "0 \<le> d" "d < 7" and "k mod 7 = (d - (ord + 6) mod 7) mod 7"
  shows "(ord + k + 6) mod 7 = d"
proof -
  have "ord + k + 6 = (ord + 6) + k" by linarith
  then have "(ord + k + 6) mod 7 = ((ord + 6) + k) mod 7"
    by (rule arg_cong)
  also have "\<dots> = ((ord + 6) mod 7 + k mod 7) mod 7"
    by (rule mod_add_eq [symmetric])
  also have "\<dots> = ((ord + 6) mod 7 + (d - (ord + 6) mod 7) mod 7) mod 7"
    by (simp only: assms(3))
  also have "\<dots> = ((ord + 6) mod 7 + (d - (ord + 6) mod 7)) mod 7"
    by (rule mod_add_right_eq)
  also have "\<dots> = d mod 7" by simp
  also have "\<dots> = d" using assms(1,2) by simp
  finally show ?thesis .
qed

lemma mod7_zero:
  fixes a b :: int
  assumes "0 \<le> a" "a < 7" "0 \<le> b" "b < 7"
  shows "(a - b) mod 7 = 0 \<longleftrightarrow> a = b"
proof
  assume "(a - b) mod 7 = 0"
  then have "7 dvd (a - b)" by (simp add: dvd_eq_mod_eq_0)
  then obtain q where q: "a - b = 7 * q" by (auto simp: dvd_def)
  from assms q have "- 7 < 7 * q" "7 * q < 7" by linarith+
  then have "q = 0" by linarith
  with q show "a = b" by simp
next
  assume "a = b"
  then show "(a - b) mod 7 = 0" by simp
qed

lemma weekday_lt: "weekday now < 7"
  by (simp add: weekday_def)

lemma int_weekday: "int (weekday now) = (ordinal now + 6) mod 7"
  by (simp add: weekday_def)

lemma weekday_shift:
  assumes "d < 7" and "k mod 7 = (int d - int (weekday now)) mod 7"
  shows "weekday (now\<lparr>ordinal := ordinal now + k, hour := h, minute := 0, second := 0,
                       microsecond := 0\<rparr>) = d"
proof -
  have "(ordinal now + k + 6) mod 7 = int d"
    using assms by (intro mod7_shift) (simp_all add: int_weekday)
  then show ?thesis by (simp add: weekday_def)
qed

lemma grid_literal:
  "grid = concat (map (\<lambda>d. map (\<lambda>h. (d, h))
            [0, 1, 2, 3, 4, 5, 6, 7, 8, 9, 10, 11, 12, 13, 14, 15, 16, 17, 18, 19, 20, 21, 22, 23])
            [0, 1, 2, 3, 4, 5, 6])"
proof -
  have a: "[0 ..< 24] = [0, 1, 2, 3, 4, 5, 6, 7, 8, 9, 10, 11, 12, 13, 14, 15, 16, 17, 18, 19, 20, 21, 22, 23::nat]"
    by (simp add: upt_rec)
  have b: "[0 ..< 7] = [0, 1, 2, 3, 4, 5, 6::nat]"
    by (simp add: upt_rec)
  show ?thesis by (simp only: grid_def a b)
qed

lemma hourly_step:
  "grid_step (Some (ORegressor hourly_regressor)) 0 (Suc 0) ([[Num a, Num b]], best, bh, bd) (d, h)
   = Inr (if real h + real d + 1 > best then ([[Num (real h), Num (real d)]], real h + real d + 1, Some h, Some d)
          else ([[Num (real h), Num (real d)]], best, bh, bd))"
  by (simp add: grid_step_def set_time_def set_col_def predicted_total_def model_predict_def
      hourly_regressor_def first_row_total_def)

lemma hourly_loop:
  "grid_loop (grid_step (Some (ORegressor hourly_regressor)) 0 (Suc 0)) ([[Num 9, Num 2]], - 1, None, None) grid
   = Inr ([[Num 23, Num 6]], 30, Some 23, Some 6)"
  by (simp add: grid_literal hourly_step)

lemma hourly_recommendation:
  "recommend_post_time hourly_model [[Num 9, Num 2]] None sample_now
   = ([], Inr (Some \<lparr>ordinal = 739004, hour = 23, minute = 0, second = 0, microsecond = 0\<rparr>))"
  by (simp add: recommend_post_time_def hourly_model_def init_def index_of_def hourly_loop
      sample_now_def weekday_def)

text \<open>
  Claim C5. When \<open>recommend_post_time\<close> returns a datetime, it is that of a day in 0..6
  and an hour in 0..23 whose total predicted engagement is the largest of all 168
  combinations (each of which was predicted without error); the datetime has that
  weekday and that hour, zero minutes and seconds, lies 7 days ahead when the weekday is
  today's and the hour is not after the current one, and is strictly later than the time
  of the call.
\<close>

theorem recommend_post_time_result:
  assumes "recommend_post_time m X feature_cols now = (lg, Inr (Some dt))"
  shows "\<exists>cols d h best.
           (case feature_cols of None \<Rightarrow> feature_names m | Some fc \<Rightarrow> Some fc) = Some cols \<and>
           d < 7 \<and> h < 24 \<and>
           engagement_at (model m) X (index_of cols ''hour_of_day'') (index_of cols ''day_of_week'') d h
             = Inr best \<and>
           (\<forall>d' < 7. \<forall>h' < 24. \<exists>t.
              engagement_at (model m) X (index_of cols ''hour_of_day'') (index_of cols ''day_of_week'') d' h'
                = Inr t \<and> t \<le> best) \<and>
           weekday dt = d \<and> hour dt = h \<and> minute dt = 0 \<and> second dt = 0 \<and> microsecond dt = 0 \<and>
           ordinal dt = ordinal now +
             (if weekday now = d \<and> h \<le> hour now then 7 else (int d - int (weekday now)) mod 7) \<and>
           dt_less now dt"
proof -
  obtain cols where
    cols: "(case feature_cols of None \<Rightarrow> feature_names m | Some fc \<Rightarrow> Some fc) = Some cols"
    using assms
    by (cases "case feature_cols of None \<Rightarrow> feature_names m | Some fc \<Rightarrow> Some fc")
       (simp_all add: recommend_post_time_def)
  let ?hi = "index_of cols ''hour_of_day''"
  let ?di = "index_of cols ''day_of_week''"
  have present: "\<not> (''hour_of_day'' \<notin> set cols \<or> ''day_of_week'' \<notin> set cols)"
  proof
    assume "''hour_of_day'' \<notin> set cols \<or> ''day_of_week'' \<notin> set cols"
    then have "snd (recommend_post_time m X feature_cols now) = Inr None"
      by (simp add: recommend_post_time_def cols)
    with assms show False by simp
  qed
  define res where "res = grid_loop (grid_step (model m) ?hi ?di) (X, - 1, None, None) grid"
  have unfold: "recommend_post_time m X feature_cols now
      = (case res of
           Inl e \<Rightarrow> ([(WARNING, ''Error during post time recommendation'')], Inr None)
         | Inr (X_copy, best_engagement, best_hour, best_day) \<Rightarrow>
             ([],
              case best_day of
                None \<Rightarrow> Inl TypeError
              | Some bd \<Rightarrow>
                  (case best_hour of
                     None \<Rightarrow> Inl TypeError
                   | Some bh \<Rightarrow>
                       Inr (Some (now\<lparr>ordinal := ordinal now +
                                     (if (int bd - int (weekday now)) mod 7 = 0 \<and> hour now \<ge> bh then 7
                                      else (int bd - int (weekday now)) mod 7),
                                   hour := bh, minute := 0, second := 0, microsecond := 0\<rparr>)))))"
    using present
    by (simp only: recommend_post_time_def cols option.case if_False Let_def res_def)
  obtain X' best bh bd where res: "res = Inr (X', best, bh, bd)"
    using assms unfolding unfold by (cases res) (auto split: prod.splits)
  obtain d where bd: "bd = Some d"
    using assms unfolding unfold res by (cases bd) simp_all
  obtain h where bh: "bh = Some h"
    using assms unfolding unfold res bd by (cases bh) simp_all
  have loop: "grid_loop (grid_step (model m) ?hi ?di) (X, - 1, None, None) grid = Inr (X', best, Some h, Some d)"
    using res bd bh by (simp add: res_def)
  have dt: "dt = now\<lparr>ordinal := ordinal now +
                 (if (int d - int (weekday now)) mod 7 = 0 \<and> h \<le> hour now then 7
                  else (int d - int (weekday now)) mod 7),
               hour := h, minute := 0, second := 0, microsecond := 0\<rparr>"
    using assms unfolding unfold res bd bh by simp
  from grid_loop_invariant [OF loop, of X]
  have all: "\<forall>(d', h') \<in> set grid. \<exists>t. engagement_at (model m) X ?hi ?di d' h' = Inr t \<and> t \<le> best"
    and arg: "\<exists>(d', h') \<in> set grid. Some h = Some h' \<and> Some d = Some d' \<and>
                engagement_at (model m) X ?hi ?di d' h' = Inr best"
    by auto
  from arg have dh: "d < 7" "h < 24" and at: "engagement_at (model m) X ?hi ?di d h = Inr best"
    by (auto simp: set_grid)
  from all have max: "\<forall>d' < 7. \<forall>h' < 24. \<exists>t. engagement_at (model m) X ?hi ?di d' h' = Inr t \<and> t \<le> best"
    by (auto simp: set_grid)
  have zero: "(int d - int (weekday now)) mod 7 = 0 \<longleftrightarrow> weekday now = d"
    using mod7_zero [of "int d" "int (weekday now)"] dh(1) weekday_lt [of now] by auto
  let ?k = "if (int d - int (weekday now)) mod 7 = 0 \<and> h \<le> hour now then 7
            else (int d - int (weekday now)) mod 7"
  have kmod: "?k mod 7 = (int d - int (weekday now)) mod 7" by simp
  have wd: "weekday dt = d"
    unfolding dt by (rule weekday_shift [OF dh(1) kmod])
  have knn: "0 \<le> ?k" by simp
  have later: "dt_less now dt"
  proof (cases "?k = 0")
    case True
    then have "hour now < h" by (auto split: if_splits)
    with True show ?thesis by (simp add: dt dt_less_def)
  next
    case False
    with knn have "0 < ?k" by linarith
    then show ?thesis by (simp add: dt dt_less_def)
  qed
  have ord: "ordinal dt = ordinal now +
             (if weekday now = d \<and> h \<le> hour now then 7 else (int d - int (weekday now)) mod 7)"
    by (simp add: dt zero)
  have fields: "hour dt = h \<and> minute dt = 0 \<and> second dt = 0 \<and> microsecond dt = 0"
    by (simp add: dt)
  from cols dh at max wd fields ord later show ?thesis by blast
qed

theorem recommend_post_time_result_witness:
  "recommend_post_time hourly_model [[Num 9, Num 2]] None sample_now
     = ([], Inr (Some \<lparr>ordinal = 739004, hour = 23, minute = 0, second = 0, microsecond = 0\<rparr>)) \<and>
   weekday \<lparr>ordinal = 739004, hour = 23, minute = 0, second = 0, microsecond = 0\<rparr> < 7 \<and>
   dt_less sample_now \<lparr>ordinal = 739004, hour = 23, minute = 0, second = 0, microsecond = 0\<rparr>"
  using recommend_post_time_result [OF hourly_recommendation] hourly_recommendation
  by auto

end
